theory Spec2Isabelle
  imports Main
begin

section \<open>Data model (package models)\<close>

text \<open>
  Instants are whole seconds since the Unix epoch, the precision of the RFC3339 strings
  the repositories write and compare; the comparison of two stored timestamps is the
  order of the instants. \<open>zeroTime\<close> is Go's zero \<open>time.Time\<close>, what a struct holds for a
  timestamp nobody set.
\<close>

type_synonym Time = int

definition zeroTime :: Time where
  "zeroTime = - 62135596800"

text \<open>\<open>type EnvironmentStatus string\<close> with its two constants.\<close>

type_synonym EnvironmentStatus = string

definition StatusFree :: EnvironmentStatus where
  "StatusFree = ''FREE''"

definition StatusReserved :: EnvironmentStatus where
  "StatusReserved = ''RESERVED''"

record Environment =
  env_ID :: string
  env_Name :: string
  env_Description :: string
  env_Status :: EnvironmentStatus
  env_CreatedBy :: string
  env_CreatedAt :: Time
  env_LastUpdated :: Time

record Reservation =
  res_ID :: string
  res_EnvironmentID :: string
  res_Username :: string
  res_StartTime :: Time
  res_EndTime :: Time
  res_Feature :: string
  res_GitBranch :: string
  res_JiraURL :: string
  res_CreatedAt :: Time
  res_LastUpdated :: Time

record ReservationCreateRequest =
  req_EnvironmentID :: string
  req_DurationMins :: int
  req_Feature :: string
  req_GitBranch :: string
  req_JiraURL :: string

text \<open>The two fields of \<open>models.User\<close> that the auth middleware puts in the request context.\<close>

record User =
  user_Username :: string
  user_Role :: string

section \<open>The store (DynamoDB as the repositories use it)\<close>

text \<open>
  Two tables keyed by \<open>id\<close>, each a list of items in scan order, and whether the service
  answers: when it does not, every call fails with a request error. Go errors are their
  messages.
\<close>

type_synonym error = string

record DynamoDB =
  EnvironmentsTable :: "Environment list"
  ReservationsTable :: "Reservation list"
  Reachable :: bool

definition RequestError :: error where
  "RequestError = ''RequestError: send request failed''"

definition ConditionalCheckFailed :: error where
  "ConditionalCheckFailed = ''ConditionalCheckFailedException: The conditional request failed''"

definition TransactionCanceled :: error where
  "TransactionCanceled = ''TransactionCanceledException: Transaction cancelled''"

definition env_item :: "Environment list \<Rightarrow> string \<Rightarrow> Environment option" where
  "env_item tbl k = find (\<lambda>e. env_ID e = k) tbl"

definition res_item :: "Reservation list \<Rightarrow> string \<Rightarrow> Reservation option" where
  "res_item tbl k = find (\<lambda>r. res_ID r = k) tbl"

text \<open>
  An update names a key and SETs attributes. On an absent key it creates the item from
  the key and the SET attributes alone; read back into the Go struct, every other field
  is the zero value.
\<close>

definition new_env :: "string \<Rightarrow> Environment" where
  "new_env k = \<lparr>env_ID = k, env_Name = [], env_Description = [], env_Status = [],
     env_CreatedBy = [], env_CreatedAt = zeroTime, env_LastUpdated = zeroTime\<rparr>"

definition new_res :: "string \<Rightarrow> Reservation" where
  "new_res k = \<lparr>res_ID = k, res_EnvironmentID = [], res_Username = [],
     res_StartTime = zeroTime, res_EndTime = zeroTime, res_Feature = [], res_GitBranch = [],
     res_JiraURL = [], res_CreatedAt = zeroTime, res_LastUpdated = zeroTime\<rparr>"

definition update_env ::
  "string \<Rightarrow> (Environment \<Rightarrow> Environment) \<Rightarrow> Environment list \<Rightarrow> Environment list" where
  "update_env k f tbl =
     (case env_item tbl k of
        None \<Rightarrow> tbl @ [f (new_env k)]
      | Some _ \<Rightarrow> map (\<lambda>e. if env_ID e = k then f e else e) tbl)"

definition update_res ::
  "string \<Rightarrow> (Reservation \<Rightarrow> Reservation) \<Rightarrow> Reservation list \<Rightarrow> Reservation list" where
  "update_res k f tbl =
     (case res_item tbl k of
        None \<Rightarrow> tbl @ [f (new_res k)]
      | Some _ \<Rightarrow> map (\<lambda>r. if res_ID r = k then f r else r) tbl)"

text \<open>A put replaces the item that has the key, or adds the item.\<close>

definition put_res :: "Reservation \<Rightarrow> Reservation list \<Rightarrow> Reservation list" where
  "put_res x tbl =
     (case res_item tbl (res_ID x) of
        None \<Rightarrow> tbl @ [x]
      | Some _ \<Rightarrow> map (\<lambda>r. if res_ID r = res_ID x then x else r) tbl)"

text \<open>
  \<open>SET #status = :status, #lastUpdated = :lastUpdated\<close> and
  \<open>SET #endTime = :endTime, #lastUpdated = :lastUpdated\<close>.
\<close>

definition set_status :: "EnvironmentStatus \<Rightarrow> Time \<Rightarrow> Environment \<Rightarrow> Environment" where
  "set_status st t e = e\<lparr>env_Status := st, env_LastUpdated := t\<rparr>"

definition set_endTime :: "Time \<Rightarrow> Time \<Rightarrow> Reservation \<Rightarrow> Reservation" where
  "set_endTime t u r = r\<lparr>res_EndTime := t, res_LastUpdated := u\<rparr>"

text \<open>The condition expressions the repositories attach to a write on an environment.\<close>

datatype Condition =
    NoCondition
  | AttributeExistsId
  | StatusEquals EnvironmentStatus

fun condition_holds :: "Condition \<Rightarrow> Environment option \<Rightarrow> bool" where
  "condition_holds NoCondition item = True"
| "condition_holds AttributeExistsId item = (item \<noteq> None)"
| "condition_holds (StatusEquals v) None = False"
| "condition_holds (StatusEquals v) (Some e) = (env_Status e = v)"

definition GetItem_env :: "DynamoDB \<Rightarrow> string \<Rightarrow> error + Environment option" where
  "GetItem_env db k =
     (if Reachable db then Inr (env_item (EnvironmentsTable db) k) else Inl RequestError)"

definition GetItem_res :: "DynamoDB \<Rightarrow> string \<Rightarrow> error + Reservation option" where
  "GetItem_res db k =
     (if Reachable db then Inr (res_item (ReservationsTable db) k) else Inl RequestError)"

definition Scan_res :: "DynamoDB \<Rightarrow> (Reservation \<Rightarrow> bool) \<Rightarrow> error + Reservation list" where
  "Scan_res db flt =
     (if Reachable db then Inr (filter flt (ReservationsTable db)) else Inl RequestError)"

definition UpdateItem_env ::
  "DynamoDB \<Rightarrow> string \<Rightarrow> EnvironmentStatus \<Rightarrow> Time \<Rightarrow> Condition \<Rightarrow> error + DynamoDB" where
  "UpdateItem_env db k st t c =
     (if \<not> Reachable db then Inl RequestError
      else if \<not> condition_holds c (env_item (EnvironmentsTable db) k) then Inl ConditionalCheckFailed
      else Inr (db\<lparr>EnvironmentsTable := update_env k (set_status st t) (EnvironmentsTable db)\<rparr>))"

text \<open>
  The items of a transaction: the put of a reservation, the update of a reservation's end
  time, and the update of an environment's status under a condition. The transaction
  writes all of them or, when a condition fails, none.
\<close>

datatype TransactWriteItem =
    Put Reservation
  | UpdateReservation string Time Time
  | UpdateEnvironment string EnvironmentStatus Time Condition

fun item_condition :: "DynamoDB \<Rightarrow> TransactWriteItem \<Rightarrow> bool" where
  "item_condition db (Put x) = True"
| "item_condition db (UpdateReservation k t u) = True"
| "item_condition db (UpdateEnvironment k st t c) =
     condition_holds c (env_item (EnvironmentsTable db) k)"

fun item_write :: "TransactWriteItem \<Rightarrow> DynamoDB \<Rightarrow> DynamoDB" where
  "item_write (Put x) db = db\<lparr>ReservationsTable := put_res x (ReservationsTable db)\<rparr>"
| "item_write (UpdateReservation k t u) db =
     db\<lparr>ReservationsTable := update_res k (set_endTime t u) (ReservationsTable db)\<rparr>"
| "item_write (UpdateEnvironment k st t c) db =
     db\<lparr>EnvironmentsTable := update_env k (set_status st t) (EnvironmentsTable db)\<rparr>"

definition TransactWriteItems :: "DynamoDB \<Rightarrow> TransactWriteItem list \<Rightarrow> error + DynamoDB" where
  "TransactWriteItems db items =
     (if \<not> Reachable db then Inl RequestError
      else if \<not> list_all (item_condition db) items then Inl TransactionCanceled
      else Inr (fold item_write items db))"

section \<open>EnvironmentRepository\<close>

definition GetEnvironment :: "DynamoDB \<Rightarrow> string \<Rightarrow> error + Environment option" where
  "GetEnvironment db ident =
     (case GetItem_env db ident of
        Inl err \<Rightarrow> Inl (''failed to get environment: '' @ err)
      | Inr item \<Rightarrow> Inr item)"

definition UpdateEnvironmentStatus ::
  "DynamoDB \<Rightarrow> string \<Rightarrow> EnvironmentStatus \<Rightarrow> Time \<Rightarrow> error + DynamoDB" where
  "UpdateEnvironmentStatus db ident status now =
     (case UpdateItem_env db ident status now AttributeExistsId of
        Inl err \<Rightarrow> Inl (''failed to update environment status: '' @ err)
      | Inr db' \<Rightarrow> Inr db')"

section \<open>ReservationRepository\<close>

text \<open>
  \<open>uuid\<close> is what \<open>uuid.New().String()\<close> returns and \<open>now\<close> what \<open>time.Now()\<close> returns in
  the call. The call reads the environment first and sends its transaction afterwards;
  \<open>others\<close> is what other callers write to the store in between, so the transaction
  runs on \<open>others db\<close>. The result pairs the store after the call, which holds the
  other callers' writes and the call's own, with the Go result.
\<close>

definition CreateReservation_between ::
  "(DynamoDB \<Rightarrow> DynamoDB) \<Rightarrow> DynamoDB \<Rightarrow> Reservation \<Rightarrow> string \<Rightarrow> Time \<Rightarrow>
     DynamoDB \<times> (error + Reservation)" where
  "CreateReservation_between others db reservation uuid now =
     (case GetEnvironment db (res_EnvironmentID reservation) of
        Inl err \<Rightarrow> (others db, Inl (''failed to get environment: '' @ err))
      | Inr None \<Rightarrow> (others db, Inl ''environment not found'')
      | Inr (Some env) \<Rightarrow>
          if env_Status env \<noteq> StatusFree
          then (others db, Inl ''environment is already reserved'')
          else
            let reservation = reservation\<lparr>res_ID := uuid, res_CreatedAt := now,
                  res_LastUpdated := now\<rparr>
            in (case TransactWriteItems (others db)
                  [Put reservation,
                   UpdateEnvironment (res_EnvironmentID reservation) StatusReserved now
                     (StatusEquals StatusFree)] of
                  Inl err \<Rightarrow> (others db, Inl (''failed to create reservation: '' @ err))
                | Inr db' \<Rightarrow> (db', Inr reservation)))"

text \<open>The call when nobody else writes during it.\<close>

definition CreateReservation ::
  "DynamoDB \<Rightarrow> Reservation \<Rightarrow> string \<Rightarrow> Time \<Rightarrow> DynamoDB \<times> (error + Reservation)" where
  "CreateReservation db reservation uuid now =
     CreateReservation_between (\<lambda>db. db) db reservation uuid now"

definition GetReservation :: "DynamoDB \<Rightarrow> string \<Rightarrow> error + Reservation option" where
  "GetReservation db ident =
     (case GetItem_res db ident of
        Inl err \<Rightarrow> Inl (''failed to get reservation: '' @ err)
      | Inr item \<Rightarrow> Inr item)"

definition GetActiveReservationByEnvironmentID ::
  "DynamoDB \<Rightarrow> string \<Rightarrow> Time \<Rightarrow> error + Reservation option" where
  "GetActiveReservationByEnvironmentID db environmentID now =
     (case Scan_res db (\<lambda>r. res_EnvironmentID r = environmentID \<and> res_EndTime r > now) of
        Inl err \<Rightarrow> Inl (''failed to scan for active reservations: '' @ err)
      | Inr [] \<Rightarrow> Inr None
      | Inr (r # rs) \<Rightarrow> Inr (Some r))"

definition ListActiveReservations :: "DynamoDB \<Rightarrow> Time \<Rightarrow> error + Reservation list" where
  "ListActiveReservations db now =
     (case Scan_res db (\<lambda>r. res_EndTime r > now) of
        Inl err \<Rightarrow> Inl (''failed to scan for active reservations: '' @ err)
      | Inr rs \<Rightarrow> Inr rs)"

text \<open>The clock reads that fill the two updates of a release are one instant \<open>now\<close>.\<close>

definition ReleaseReservation ::
  "DynamoDB \<Rightarrow> string \<Rightarrow> string \<Rightarrow> Time \<Rightarrow> DynamoDB \<times> error option" where
  "ReleaseReservation db ident username now =
     (case GetReservation db ident of
        Inl err \<Rightarrow> (db, Some (''failed to get reservation: '' @ err))
      | Inr None \<Rightarrow> (db, Some ''reservation not found'')
      | Inr (Some reservation) \<Rightarrow>
          if res_Username reservation \<noteq> username
          then (db, Some ''you can only release your own reservations'')
          else
            (case TransactWriteItems db
               [UpdateReservation ident now now,
                UpdateEnvironment (res_EnvironmentID reservation) StatusFree now NoCondition] of
               Inl err \<Rightarrow> (db, Some (''failed to release reservation: '' @ err))
             | Inr db' \<Rightarrow> (db', None)))"

text \<open>
  The loop of \<open>CheckExpiredReservations\<close> over the reservations the scan returned, at the
  instant \<open>now\<close> read after the scan; the status updates it makes are stamped \<open>now\<close>.
\<close>

fun check_each :: "Reservation list \<Rightarrow> Time \<Rightarrow> DynamoDB \<Rightarrow> DynamoDB \<times> error option" where
  "check_each [] now db = (db, None)"
| "check_each (reservation # rest) now db =
     (if now > res_EndTime reservation then
        (case UpdateEnvironmentStatus db (res_EnvironmentID reservation) StatusFree now of
           Inl err \<Rightarrow> (db, Some (''failed to update environment status: '' @ err))
         | Inr db' \<Rightarrow> check_each rest now db')
      else check_each rest now db)"

text \<open>
  \<open>scanTime\<close> is the clock read inside \<open>ListActiveReservations\<close>, \<open>now\<close> the read that
  follows it in \<open>CheckExpiredReservations\<close>.
\<close>

definition CheckExpiredReservations ::
  "DynamoDB \<Rightarrow> Time \<Rightarrow> Time \<Rightarrow> DynamoDB \<times> error option" where
  "CheckExpiredReservations db scanTime now =
     (case ListActiveReservations db scanTime of
        Inl err \<Rightarrow> (db, Some (''failed to list active reservations: '' @ err))
      | Inr activeReservations \<Rightarrow> check_each activeReservations now db)"

text \<open>One tick of the background goroutine of \<open>main\<close>: the cycle, and the line it logs.\<close>

definition sweeper_tick :: "DynamoDB \<Rightarrow> Time \<Rightarrow> Time \<Rightarrow> DynamoDB \<times> string option" where
  "sweeper_tick db scanTime now =
     (case CheckExpiredReservations db scanTime now of
        (db', Some err) \<Rightarrow> (db', Some (''Error checking expired reservations: '' @ err))
      | (db', None) \<Rightarrow> (db', None))"

section \<open>ReservationHandler\<close>

text \<open>
  The parts of a request the handlers read: the method, the user the auth middleware
  stored in the context, the decoded JSON body (\<open>None\<close> when it does not decode) and the
  \<open>id\<close> variable of the route. A context value, when there is one, is a \<open>models.User\<close>:
  the middleware stores nothing else under the key.
\<close>

record Request =
  Method :: string
  ContextUser :: "User option"
  Body :: "ReservationCreateRequest option"
  VarsId :: string

datatype Payload =
    ReservationData Reservation
  | ReservationsData "Reservation list"
  | MessageData string

record Response =
  Code :: nat
  Success :: bool
  Data :: "Payload option"
  Error :: string

definition RespondWithError :: "nat \<Rightarrow> string \<Rightarrow> Response" where
  "RespondWithError code message = \<lparr>Code = code, Success = False, Data = None, Error = message\<rparr>"

definition RespondWithSuccess :: "Payload \<Rightarrow> Response" where
  "RespondWithSuccess d = \<lparr>Code = 200, Success = True, Data = Some d, Error = []\<rparr>"

text \<open>
  \<open>now\<close> is the handler's clock read, \<open>uuid\<close> and \<open>repoNow\<close> are the identifier and the
  clock read of the repository call. \<open>othersRead\<close> is what other callers write between
  the handler's read of the environment and the repository's, \<open>othersCommit\<close> what they
  write between the repository's read and its transaction.
\<close>

definition Handler_CreateReservation_between ::
  "(DynamoDB \<Rightarrow> DynamoDB) \<Rightarrow> (DynamoDB \<Rightarrow> DynamoDB) \<Rightarrow> DynamoDB \<Rightarrow> Request \<Rightarrow> Time \<Rightarrow>
     string \<Rightarrow> Time \<Rightarrow> DynamoDB \<times> Response" where
  "Handler_CreateReservation_between othersRead othersCommit db r now uuid repoNow =
     (let after = othersCommit (othersRead db) in
      if Method r \<noteq> ''POST'' then (after, RespondWithError 405 ''Method not allowed'')
      else case ContextUser r of
        None \<Rightarrow> (after, RespondWithError 401 ''Unauthorized'')
      | Some user \<Rightarrow>
         (case Body r of
            None \<Rightarrow> (after, RespondWithError 400 ''Invalid request body'')
          | Some req \<Rightarrow>
              if req_EnvironmentID req = [] then
                (after, RespondWithError 400 ''Environment ID is required'')
              else if req_DurationMins req < 10 then
                (after, RespondWithError 400 ''Duration must be at least 10 minutes'')
              else if req_DurationMins req > 4320 then
                (after, RespondWithError 400 ''Duration cannot exceed 3 days (4320 minutes)'')
              else if req_Feature req = [] then
                (after, RespondWithError 400 ''Feature description is required'')
              else
                (case GetEnvironment db (req_EnvironmentID req) of
                  Inl err \<Rightarrow> (after, RespondWithError 500 ''Failed to get environment'')
                | Inr None \<Rightarrow> (after, RespondWithError 404 ''Environment not found'')
                | Inr (Some env) \<Rightarrow>
                    if env_Status env \<noteq> StatusFree then
                      (after, RespondWithError 400 ''Environment is already reserved'')
                    else
                      let endTime = now + req_DurationMins req * 60;
                          reservation = \<lparr>res_ID = [],
                            res_EnvironmentID = req_EnvironmentID req,
                            res_Username = user_Username user,
                            res_StartTime = now,
                            res_EndTime = endTime,
                            res_Feature = req_Feature req,
                            res_GitBranch = req_GitBranch req,
                            res_JiraURL = req_JiraURL req,
                            res_CreatedAt = zeroTime,
                            res_LastUpdated = zeroTime\<rparr>
                      in (case CreateReservation_between othersCommit (othersRead db)
                                reservation uuid repoNow of
                            (db', Inl err) \<Rightarrow>
                              (db', RespondWithError 500 (''Failed to create reservation: '' @ err))
                          | (db', Inr createdReservation) \<Rightarrow>
                              (db', RespondWithSuccess (ReservationData createdReservation))))))"

text \<open>The handler when nobody else writes during the request.\<close>

definition Handler_CreateReservation ::
  "DynamoDB \<Rightarrow> Request \<Rightarrow> Time \<Rightarrow> string \<Rightarrow> Time \<Rightarrow> DynamoDB \<times> Response" where
  "Handler_CreateReservation db r now uuid repoNow =
     Handler_CreateReservation_between (\<lambda>db. db) (\<lambda>db. db) db r now uuid repoNow"

definition Handler_ReleaseReservation ::
  "DynamoDB \<Rightarrow> Request \<Rightarrow> Time \<Rightarrow> DynamoDB \<times> Response" where
  "Handler_ReleaseReservation db r now =
     (if Method r \<noteq> ''POST'' then (db, RespondWithError 405 ''Method not allowed'')
      else case ContextUser r of
        None \<Rightarrow> (db, RespondWithError 401 ''Unauthorized'')
      | Some user \<Rightarrow>
          if VarsId r = [] then (db, RespondWithError 400 ''Reservation ID is required'')
          else
            (case ReleaseReservation db (VarsId r) (user_Username user) now of
               (db', Some err) \<Rightarrow>
                 (db', RespondWithError 500 (''Failed to release reservation: '' @ err))
             | (db', None) \<Rightarrow>
                 (db', RespondWithSuccess (MessageData ''Reservation released successfully''))))"

section \<open>The system as a machine of steps\<close>

text \<open>
  A step is one call of the API or one cycle of the sweeper, each with the clock reads
  and the identifier it draws; a run applies steps one after the other, each on the
  store the step before it left and with nobody else writing during it.
\<close>

datatype Step =
    Reserve Request Time string Time
  | Release Request Time
  | Sweep Time Time

fun step :: "Step \<Rightarrow> DynamoDB \<Rightarrow> DynamoDB" where
  "step (Reserve r now uuid repoNow) db = fst (Handler_CreateReservation db r now uuid repoNow)"
| "step (Release r now) db = fst (Handler_ReleaseReservation db r now)"
| "step (Sweep scanTime now) db = fst (CheckExpiredReservations db scanTime now)"

definition run :: "Step list \<Rightarrow> DynamoDB \<Rightarrow> DynamoDB" where
  "run steps db = fold step steps db"

text \<open>The reservations of an environment that are active at \<open>now\<close>, in scan order.\<close>

definition active_for :: "DynamoDB \<Rightarrow> string \<Rightarrow> Time \<Rightarrow> Reservation list" where
  "active_for db environmentID now =
     filter (\<lambda>r. res_EnvironmentID r = environmentID \<and> res_EndTime r > now)
       (ReservationsTable db)"

text \<open>What a status update may not change in an environment.\<close>

definition env_rest :: "Environment \<Rightarrow> string \<times> string \<times> string \<times> string \<times> Time" where
  "env_rest e = (env_ID e, env_Name e, env_Description e, env_CreatedBy e, env_CreatedAt e)"

text \<open>The four responses of the validation block of the create handler.\<close>

definition ValidationErrors :: "Response list" where
  "ValidationErrors =
     [RespondWithError 400 ''Environment ID is required'',
      RespondWithError 400 ''Duration must be at least 10 minutes'',
      RespondWithError 400 ''Duration cannot exceed 3 days (4320 minutes)'',
      RespondWithError 400 ''Feature description is required'']"

section \<open>Scenarios\<close>

definition env1 :: Environment where
  "env1 = \<lparr>env_ID = ''env-1'', env_Name = ''staging'', env_Description = [],
     env_Status = StatusFree, env_CreatedBy = ''admin'', env_CreatedAt = 0,
     env_LastUpdated = 0\<rparr>"

definition env2 :: Environment where
  "env2 = \<lparr>env_ID = ''env-2'', env_Name = ''qa'', env_Description = [],
     env_Status = StatusReserved, env_CreatedBy = ''admin'', env_CreatedAt = 0,
     env_LastUpdated = 0\<rparr>"

definition env3 :: Environment where
  "env3 = \<lparr>env_ID = ''env-3'', env_Name = ''perf'', env_Description = [],
     env_Status = StatusReserved, env_CreatedBy = ''admin'', env_CreatedAt = 0,
     env_LastUpdated = 0\<rparr>"

definition db0 :: DynamoDB where
  "db0 = \<lparr>EnvironmentsTable = [env1], ReservationsTable = [], Reachable = True\<rparr>"

definition post_as :: "string \<Rightarrow> ReservationCreateRequest option \<Rightarrow> string \<Rightarrow> Request" where
  "post_as username body ident =
     \<lparr>Method = ''POST'',
      ContextUser = Some \<lparr>user_Username = username, user_Role = ''USER''\<rparr>,
      Body = body, VarsId = ident\<rparr>"

definition reserve_body :: "string \<Rightarrow> int \<Rightarrow> ReservationCreateRequest" where
  "reserve_body environmentID mins =
     \<lparr>req_EnvironmentID = environmentID, req_DurationMins = mins,
      req_Feature = ''login-flow'', req_GitBranch = [], req_JiraURL = []\<rparr>"

definition held :: "string \<Rightarrow> string \<Rightarrow> string \<Rightarrow> Time \<Rightarrow> Time \<Rightarrow> Reservation" where
  "held ident environmentID username start finish =
     \<lparr>res_ID = ident, res_EnvironmentID = environmentID, res_Username = username,
      res_StartTime = start, res_EndTime = finish, res_Feature = ''login-flow'',
      res_GitBranch = [], res_JiraURL = [], res_CreatedAt = start, res_LastUpdated = start\<rparr>"

text \<open>
  alice reserves env-1 and releases it, bob reserves it, alice releases her old
  reservation once more.
\<close>

definition second_release :: "Step list" where
  "second_release =
     [Reserve (post_as ''alice'' (Some (reserve_body ''env-1'' 10)) []) 0 ''r1'' 0,
      Release (post_as ''alice'' None ''r1'') 1,
      Reserve (post_as ''bob'' (Some (reserve_body ''env-1'' 60)) []) 2 ''r2'' 2,
      Release (post_as ''alice'' None ''r1'') 3]"

definition carol_reserves :: Step where
  "carol_reserves = Reserve (post_as ''carol'' (Some (reserve_body ''env-1'' 60)) []) 4 ''r3'' 4"

text \<open>bob's reservation of env-1 at 1, as the writes of another caller.\<close>

definition bob_reserves :: Step where
  "bob_reserves = Reserve (post_as ''bob'' (Some (reserve_body ''env-1'' 60)) []) 1 ''r2'' 1"

text \<open>env-1 held by bob from 1 to 3601, the store that \<open>bob_reserves\<close> makes of \<open>db0\<close>.\<close>

definition db_bob :: DynamoDB where
  "db_bob = \<lparr>EnvironmentsTable =
       [env1\<lparr>env_Status := StatusReserved, env_LastUpdated := 1\<rparr>],
     ReservationsTable = [held ''r2'' ''env-1'' ''bob'' 1 3601], Reachable = True\<rparr>"

text \<open>env-1 held by alice from 0 to 600.\<close>

definition db_held :: DynamoDB where
  "db_held = \<lparr>EnvironmentsTable = [env1\<lparr>env_Status := StatusReserved\<rparr>],
     ReservationsTable = [held ''r1'' ''env-1'' ''alice'' 0 600], Reachable = True\<rparr>"

text \<open>env-1 free again while the reservation that ended at 600 is still on record.\<close>

definition db_lapsed :: DynamoDB where
  "db_lapsed = \<lparr>EnvironmentsTable = [env1],
     ReservationsTable = [held ''r1'' ''env-1'' ''alice'' 0 600], Reachable = True\<rparr>"

text \<open>
  Three reservations that end at 600, on env-2, on an environment that is no longer in
  the table, and on env-3.
\<close>

definition db_lapsing :: DynamoDB where
  "db_lapsing = \<lparr>EnvironmentsTable = [env2, env3],
     ReservationsTable = [held ''rb'' ''env-2'' ''bob'' 0 600,
       held ''ra'' ''env-gone'' ''alice'' 0 600,
       held ''rc'' ''env-3'' ''carol'' 0 600],
     Reachable = True\<rparr>"

text \<open>The store after alice's reservation of env-1 is created at 9 under the id r1.\<close>

definition db_created :: DynamoDB where
  "db_created = \<lparr>EnvironmentsTable =
       [env1\<lparr>env_Status := StatusReserved, env_LastUpdated := 9\<rparr>],
     ReservationsTable =
       [(held ''r1'' ''env-1'' ''alice'' 7 607)\<lparr>res_CreatedAt := 9, res_LastUpdated := 9\<rparr>],
     Reachable = True\<rparr>"

lemmas store_defs = env_item_def res_item_def new_env_def new_res_def update_env_def
  update_res_def put_res_def set_status_def set_endTime_def GetItem_env_def GetItem_res_def
  Scan_res_def UpdateItem_env_def TransactWriteItems_def RequestError_def
  ConditionalCheckFailed_def TransactionCanceled_def StatusFree_def StatusReserved_def
  zeroTime_def

lemmas repo_defs = GetEnvironment_def UpdateEnvironmentStatus_def CreateReservation_def
  CreateReservation_between_def GetReservation_def ListActiveReservations_def ReleaseReservation_def
  CheckExpiredReservations_def sweeper_tick_def

lemmas handler_defs = RespondWithError_def RespondWithSuccess_def
  Handler_CreateReservation_def Handler_CreateReservation_between_def
  Handler_ReleaseReservation_def Let_def

lemmas scenario_defs = env1_def env2_def env3_def db0_def post_as_def reserve_body_def
  held_def second_release_def carol_reserves_def bob_reserves_def db_bob_def db_held_def
  db_lapsed_def db_lapsing_def db_created_def run_def active_for_def

section \<open>Lemmas on the tables\<close>

lemma find_snoc_fresh:
  "find P xs = None \<Longrightarrow> find P (xs @ [x]) = (if P x then Some x else None)"
  by (induction xs) (auto split: if_splits)

lemma find_Some_holds: "find P xs = Some y \<Longrightarrow> P y"
  by (auto simp: find_Some_iff)

lemma find_map_replace:
  "find P xs = Some y \<Longrightarrow> P (f y) \<Longrightarrow>
     find P (map (\<lambda>x. if P x then f x else x) xs) = Some (f y)"
  by (induction xs) (auto split: if_splits)

lemma res_item_put: "res_item (put_res x tbl) (res_ID x) = Some x"
proof (cases "res_item tbl (res_ID x)")
  case None
  then show ?thesis by (simp add: put_res_def res_item_def find_snoc_fresh)
next
  case (Some y)
  then have "find (\<lambda>r. res_ID r = res_ID x)
      (map (\<lambda>r. if res_ID r = res_ID x then (\<lambda>_. x) r else r) tbl) = Some ((\<lambda>_. x) y)"
    unfolding res_item_def by (rule find_map_replace) simp
  with Some show ?thesis by (simp add: put_res_def res_item_def)
qed

lemma res_item_update:
  assumes "res_item tbl k = Some r" and "res_ID (f r) = k"
  shows "res_item (update_res k f tbl) k = Some (f r)"
proof -
  have "find (\<lambda>r. res_ID r = k) (map (\<lambda>r. if res_ID r = k then f r else r) tbl) = Some (f r)"
    using assms unfolding res_item_def by (intro find_map_replace) simp_all
  with assms show ?thesis by (simp add: update_res_def res_item_def)
qed

lemma env_item_update_status:
  "\<exists>e. env_item (update_env k (set_status st t) tbl) k = Some e \<and> env_Status e = st"
proof (cases "env_item tbl k")
  case None
  then show ?thesis
    by (simp add: update_env_def env_item_def find_snoc_fresh set_status_def new_env_def)
next
  case (Some y)
  then have "find (\<lambda>e. env_ID e = k)
      (map (\<lambda>e. if env_ID e = k then set_status st t e else e) tbl) = Some (set_status st t y)"
    unfolding env_item_def
    by (intro find_map_replace) (auto simp: set_status_def dest: find_Some_holds)
  with Some show ?thesis by (simp add: update_env_def env_item_def set_status_def)
qed

lemma env_rest_update:
  "env_item tbl k \<noteq> None \<Longrightarrow>
     map env_rest (update_env k (set_status st t) tbl) = map env_rest tbl"
  by (auto simp: update_env_def env_rest_def set_status_def)

lemma GetEnvironment_Inr:
  "GetEnvironment db k = Inr item \<Longrightarrow> Reachable db \<and> env_item (EnvironmentsTable db) k = item"
  by (auto simp: GetEnvironment_def GetItem_env_def split: if_splits)

lemma GetReservation_Inr:
  "GetReservation db k = Inr item \<Longrightarrow> Reachable db \<and> res_item (ReservationsTable db) k = item"
  by (auto simp: GetReservation_def GetItem_res_def split: if_splits)

section \<open>Lemmas on the sweeper\<close>

lemma UpdateEnvironmentStatus_frame:
  assumes "UpdateEnvironmentStatus db k st t = Inr db'"
  shows "ReservationsTable db' = ReservationsTable db \<and> Reachable db' = Reachable db \<and>
    map env_rest (EnvironmentsTable db') = map env_rest (EnvironmentsTable db)"
  using assms
  by (auto simp: UpdateEnvironmentStatus_def UpdateItem_env_def env_rest_update split: if_splits)

lemma check_each_frame:
  "check_each rs now db = (db', err) \<Longrightarrow>
     ReservationsTable db' = ReservationsTable db \<and> Reachable db' = Reachable db \<and>
     map env_rest (EnvironmentsTable db') = map env_rest (EnvironmentsTable db)"
proof (induction rs arbitrary: db)
  case Nil
  then show ?case by simp
next
  case (Cons r rs)
  show ?case
  proof (cases "now > res_EndTime r")
    case False
    with Cons show ?thesis by simp
  next
    case True
    show ?thesis
    proof (cases "UpdateEnvironmentStatus db (res_EnvironmentID r) StatusFree now")
      case (Inl e)
      with True Cons.prems show ?thesis by simp
    next
      case (Inr db1)
      with True Cons.prems have "check_each rs now db1 = (db', err)" by simp
      from Cons.IH[OF this] UpdateEnvironmentStatus_frame[OF Inr] show ?thesis by simp
    qed
  qed
qed


text \<open>
  A reservation that the scan returns ends after the scan's clock read, so the loop
  frees nothing unless its own clock read is later than that: a cycle whose two reads
  are the same instant changes nothing.
\<close>

lemma check_each_none_lapsed:
  "list_all (\<lambda>r. \<not> now > res_EndTime r) rs \<Longrightarrow> check_each rs now db = (db, None)"
  by (induction rs) auto

lemma sweep_at_one_instant:
  "Reachable db \<Longrightarrow> CheckExpiredReservations db now now = (db, None)"
proof -
  assume "Reachable db"
  moreover have "list_all (\<lambda>r. \<not> now > res_EndTime r)
      (filter (\<lambda>r. res_EndTime r > now) (ReservationsTable db))"
    by (simp add: list_all_iff)
  ultimately show ?thesis
    by (simp add: CheckExpiredReservations_def ListActiveReservations_def Scan_res_def
        check_each_none_lapsed)
qed

section \<open>Lemmas on the create call\<close>

text \<open>
  The condition of the transaction decides alone: whatever the call read before, it
  fails when the environment is not FREE, or not there, in the store the transaction
  runs on.
\<close>

lemma create_cancelled:
  assumes "\<not> condition_holds (StatusEquals StatusFree)
      (env_item (EnvironmentsTable (others db)) (res_EnvironmentID reservation))"
  shows "\<exists>err. CreateReservation_between others db reservation uuid now = (others db, Inl err)"
  using assms
  by (auto simp: CreateReservation_between_def TransactWriteItems_def Let_def
      split: sum.splits option.splits)

lemma create_failure_writes_nothing:
  "CreateReservation_between others db reservation uuid now = (db', Inl err) \<Longrightarrow> db' = others db"
  by (auto simp: CreateReservation_between_def Let_def split: sum.splits option.splits if_splits)

section \<open>The claims\<close>

text \<open>
  C1. Mutual exclusion: in every state reachable by Reserve, Release and Sweeper steps
  from a store with no reservations, at most one reservation with \<open>endTime > now\<close>
  references a resource, and a Reserve on a resource that has an active reservation
  fails. The code does not keep this: a release is not tied to the reservation that
  holds the resource now. After alice releases her ended reservation r1 a second time,
  while bob's r2 is active, env-1 is FREE again; carol's Reserve then answers 200, and
  r2 and r3 are both active on env-1.
\<close>

theorem stale_release_admits_second_holder:
  "ReservationsTable db0 = [] \<and>
   map res_ID (active_for (run second_release db0) ''env-1'' 4) = [''r2''] \<and>
   map env_Status (EnvironmentsTable (run second_release db0)) = [StatusFree] \<and>
   Code (snd (Handler_CreateReservation (run second_release db0)
      (post_as ''carol'' (Some (reserve_body ''env-1'' 60)) []) 4 ''r3'' 4)) = 200 \<and>
   map res_ID (active_for (run (second_release @ [carol_reserves]) db0) ''env-1'' 5)
     = [''r2'', ''r3'']"
  by (simp add: scenario_defs store_defs repo_defs handler_defs)

text \<open>
  C2. Sweep correctness: a cycle run after a reservation's end time sets its resource
  FREE and leaves the reservation as it is. The code does not free the resource: the
  cycle reads only the reservations that are still active at its scan. alice's
  10-minute reservation made at 0 ends at 600; the cycle at 660 returns without an error
  and env-1 is still RESERVED, also when the loop's clock read falls a second after the
  scan's.
\<close>

theorem sweep_after_expiry_frees_nothing:
  "run [Reserve (post_as ''alice'' (Some (reserve_body ''env-1'' 10)) []) 0 ''r1'' 0] db0
     = db_held \<and>
   map res_EndTime (ReservationsTable db_held) = [600] \<and>
   CheckExpiredReservations db_held 660 660 = (db_held, None) \<and>
   CheckExpiredReservations db_held 660 661 = (db_held, None) \<and>
   map env_Status (EnvironmentsTable db_held) = [StatusReserved]"
  by (simp add: scenario_defs store_defs repo_defs handler_defs)

text \<open>
  C3, as amended. A Reserve fails and writes nothing whenever the resource's status is
  not FREE, or the resource does not exist, in the store its transaction runs on: the
  store after the call holds the other callers' writes only. The failure is the conflict
  error when the status the call itself reads is already not FREE, and not-found when
  the call's read finds no such resource. This is stated of the repository call and of
  the handler for a request that passed validation.
\<close>

theorem reserve_unavailable_writes_nothing:
  assumes request: "Method r = ''POST''" "ContextUser r = Some user" "Body r = Some req"
      and valid: "req_EnvironmentID req = ident" "ident \<noteq> []" "10 \<le> req_DurationMins req"
        "req_DurationMins req \<le> 4320" "req_Feature req \<noteq> []"
      and target: "res_EnvironmentID reservation = ident"
  shows "(\<not> condition_holds (StatusEquals StatusFree)
              (env_item (EnvironmentsTable (others db)) ident) \<longrightarrow>
            fst (CreateReservation_between others db reservation uuid now) = others db \<and>
            isl (snd (CreateReservation_between others db reservation uuid now))) \<and>
         (\<not> condition_holds (StatusEquals StatusFree)
              (env_item (EnvironmentsTable (othersCommit (othersRead db))) ident) \<longrightarrow>
            fst (Handler_CreateReservation_between othersRead othersCommit db r hnow uuid now)
              = othersCommit (othersRead db) \<and>
            \<not> Success (snd (Handler_CreateReservation_between othersRead othersCommit db r
                hnow uuid now))) \<and>
         (\<forall>env. GetEnvironment db ident = Inr (Some env) \<and> env_Status env \<noteq> StatusFree \<longrightarrow>
            CreateReservation_between others db reservation uuid now
              = (others db, Inl ''environment is already reserved'') \<and>
            Handler_CreateReservation_between othersRead othersCommit db r hnow uuid now
              = (othersCommit (othersRead db),
                 RespondWithError 400 ''Environment is already reserved'')) \<and>
         (GetEnvironment db ident = Inr None \<longrightarrow>
            CreateReservation_between others db reservation uuid now
              = (others db, Inl ''environment not found'') \<and>
            Handler_CreateReservation_between othersRead othersCommit db r hnow uuid now
              = (othersCommit (othersRead db), RespondWithError 404 ''Environment not found''))"
proof (intro conjI impI allI)
  assume c: "\<not> condition_holds (StatusEquals StatusFree)
      (env_item (EnvironmentsTable (others db)) ident)"
  with target create_cancelled[of others db reservation uuid now]
  obtain err where "CreateReservation_between others db reservation uuid now = (others db, Inl err)"
    by auto
  then show "fst (CreateReservation_between others db reservation uuid now) = others db"
    and "isl (snd (CreateReservation_between others db reservation uuid now))"
    by simp_all
next
  assume c: "\<not> condition_holds (StatusEquals StatusFree)
      (env_item (EnvironmentsTable (othersCommit (othersRead db))) ident)"
  have cancelled: "\<exists>err. CreateReservation_between othersCommit (othersRead db) x uuid now
      = (othersCommit (othersRead db), Inl err)" if "res_EnvironmentID x = ident" for x
    using c that create_cancelled[of othersCommit "othersRead db" x uuid now] by simp
  let ?res = "\<lparr>res_ID = [], res_EnvironmentID = req_EnvironmentID req,
      res_Username = user_Username user, res_StartTime = hnow,
      res_EndTime = hnow + req_DurationMins req * 60, res_Feature = req_Feature req,
      res_GitBranch = req_GitBranch req, res_JiraURL = req_JiraURL req,
      res_CreatedAt = zeroTime, res_LastUpdated = zeroTime\<rparr>"
  from cancelled[of ?res] valid obtain err where
    e: "CreateReservation_between othersCommit (othersRead db) ?res uuid now
      = (othersCommit (othersRead db), Inl err)"
    by auto
  show "fst (Handler_CreateReservation_between othersRead othersCommit db r hnow uuid now)
      = othersCommit (othersRead db)"
    using request valid e
    by (simp add: Handler_CreateReservation_between_def Let_def RespondWithError_def
        split: sum.splits option.splits)
  show "\<not> Success (snd (Handler_CreateReservation_between othersRead othersCommit db r
      hnow uuid now))"
    using request valid e
    by (simp add: Handler_CreateReservation_between_def Let_def RespondWithError_def
        split: sum.splits option.splits)
next
  fix env
  assume "GetEnvironment db ident = Inr (Some env) \<and> env_Status env \<noteq> StatusFree"
  then show "CreateReservation_between others db reservation uuid now
      = (others db, Inl ''environment is already reserved'')"
    and "Handler_CreateReservation_between othersRead othersCommit db r hnow uuid now
      = (othersCommit (othersRead db), RespondWithError 400 ''Environment is already reserved'')"
    using request valid target
    by (simp_all add: CreateReservation_between_def Handler_CreateReservation_between_def Let_def)
next
  assume "GetEnvironment db ident = Inr None"
  then show "CreateReservation_between others db reservation uuid now
      = (others db, Inl ''environment not found'')"
    and "Handler_CreateReservation_between othersRead othersCommit db r hnow uuid now
      = (othersCommit (othersRead db), RespondWithError 404 ''Environment not found'')"
    using request valid target
    by (simp_all add: CreateReservation_between_def Handler_CreateReservation_between_def Let_def)
qed

text \<open>
  The witness takes the theorem at a call by alice on the free env-1 during which bob's
  reservation lands before her transaction, and at calls that run alone on the held
  env-1 and on an id that is not in the table.
\<close>

theorem reserve_unavailable_writes_nothing_witness:
  "fst (CreateReservation_between (step bob_reserves) db0
       (held [] ''env-1'' ''alice'' 0 600) ''r1'' 2) = db_bob \<and>
   isl (snd (CreateReservation_between (step bob_reserves) db0
       (held [] ''env-1'' ''alice'' 0 600) ''r1'' 2)) \<and>
   fst (Handler_CreateReservation_between (\<lambda>db. db) (step bob_reserves) db0
       (post_as ''alice'' (Some (reserve_body ''env-1'' 10)) []) 0 ''r1'' 2) = db_bob \<and>
   \<not> Success (snd (Handler_CreateReservation_between (\<lambda>db. db) (step bob_reserves) db0
       (post_as ''alice'' (Some (reserve_body ''env-1'' 10)) []) 0 ''r1'' 2)) \<and>
   CreateReservation db_held (held [] ''env-1'' ''bob'' 5 605) ''r2'' 5
     = (db_held, Inl ''environment is already reserved'') \<and>
   Handler_CreateReservation db_held (post_as ''bob'' (Some (reserve_body ''env-1'' 10)) [])
       5 ''r2'' 5
     = (db_held, RespondWithError 400 ''Environment is already reserved'') \<and>
   CreateReservation db_held (held [] ''env-404'' ''bob'' 5 605) ''r2'' 5
     = (db_held, Inl ''environment not found'') \<and>
   Handler_CreateReservation db_held (post_as ''bob'' (Some (reserve_body ''env-404'' 10)) [])
       5 ''r2'' 5
     = (db_held, RespondWithError 404 ''Environment not found'')"
proof -
  have rq: "Method (post_as u (Some (reserve_body e 10)) []) = ''POST''"
    "ContextUser (post_as u (Some (reserve_body e 10)) [])
       = Some \<lparr>user_Username = u, user_Role = ''USER''\<rparr>"
    "Body (post_as u (Some (reserve_body e 10)) []) = Some (reserve_body e 10)"
    "req_EnvironmentID (reserve_body e 10) = e"
    "10 \<le> req_DurationMins (reserve_body e 10)"
    "req_DurationMins (reserve_body e 10) \<le> 4320"
    "req_Feature (reserve_body e 10) \<noteq> []"
    "res_EnvironmentID (held [] e u s f) = e" for u e s f
    by (simp_all add: post_as_def reserve_body_def held_def)
  have bob: "step bob_reserves db0 = db_bob"
    by (simp add: scenario_defs store_defs repo_defs handler_defs)
  have taken_at_commit: "\<not> condition_holds (StatusEquals StatusFree)
      (env_item (EnvironmentsTable (step bob_reserves db0)) ''env-1'')"
    unfolding bob by (simp add: db_bob_def env1_def env_item_def StatusFree_def StatusReserved_def)
  have taken: "GetEnvironment db_held ''env-1'' = Inr (Some (env1\<lparr>env_Status := StatusReserved\<rparr>))"
    by (simp add: scenario_defs store_defs repo_defs)
  have absent: "GetEnvironment db_held ''env-404'' = Inr None"
    by (simp add: scenario_defs store_defs repo_defs)
  note race = reserve_unavailable_writes_nothing[
      where r = "post_as ''alice'' (Some (reserve_body ''env-1'' 10)) []"
        and user = "\<lparr>user_Username = ''alice'', user_Role = ''USER''\<rparr>"
        and req = "reserve_body ''env-1'' 10" and ident = "''env-1''"
        and reservation = "held [] ''env-1'' ''alice'' 0 600"
        and db = db0 and others = "step bob_reserves" and othersRead = "\<lambda>db. db"
        and othersCommit = "step bob_reserves" and uuid = "''r1''" and now = 2 and hnow = 0]
  note conflict = reserve_unavailable_writes_nothing[
      where r = "post_as ''bob'' (Some (reserve_body ''env-1'' 10)) []"
        and user = "\<lparr>user_Username = ''bob'', user_Role = ''USER''\<rparr>"
        and req = "reserve_body ''env-1'' 10" and ident = "''env-1''"
        and reservation = "held [] ''env-1'' ''bob'' 5 605"
        and db = db_held and others = "\<lambda>db. db" and othersRead = "\<lambda>db. db"
        and othersCommit = "\<lambda>db. db" and uuid = "''r2''" and now = 5 and hnow = 5]
  note missing = reserve_unavailable_writes_nothing[
      where r = "post_as ''bob'' (Some (reserve_body ''env-404'' 10)) []"
        and user = "\<lparr>user_Username = ''bob'', user_Role = ''USER''\<rparr>"
        and req = "reserve_body ''env-404'' 10" and ident = "''env-404''"
        and reservation = "held [] ''env-404'' ''bob'' 5 605"
        and db = db_held and others = "\<lambda>db. db" and othersRead = "\<lambda>db. db"
        and othersCommit = "\<lambda>db. db" and uuid = "''r2''" and now = 5 and hnow = 5]
  from race rq taken_at_commit have a:
    "fst (CreateReservation_between (step bob_reserves) db0
        (held [] ''env-1'' ''alice'' 0 600) ''r1'' 2) = db_bob \<and>
     isl (snd (CreateReservation_between (step bob_reserves) db0
        (held [] ''env-1'' ''alice'' 0 600) ''r1'' 2)) \<and>
     fst (Handler_CreateReservation_between (\<lambda>db. db) (step bob_reserves) db0
        (post_as ''alice'' (Some (reserve_body ''env-1'' 10)) []) 0 ''r1'' 2) = db_bob \<and>
     \<not> Success (snd (Handler_CreateReservation_between (\<lambda>db. db) (step bob_reserves) db0
        (post_as ''alice'' (Some (reserve_body ''env-1'' 10)) []) 0 ''r1'' 2))"
    by (simp add: bob)
  from conflict rq taken have b:
    "CreateReservation db_held (held [] ''env-1'' ''bob'' 5 605) ''r2'' 5
       = (db_held, Inl ''environment is already reserved'') \<and>
     Handler_CreateReservation db_held (post_as ''bob'' (Some (reserve_body ''env-1'' 10)) [])
         5 ''r2'' 5
       = (db_held, RespondWithError 400 ''Environment is already reserved'')"
    by (simp add: CreateReservation_def Handler_CreateReservation_def env1_def StatusFree_def
        StatusReserved_def)
  from missing rq absent have c:
    "CreateReservation db_held (held [] ''env-404'' ''bob'' 5 605) ''r2'' 5
       = (db_held, Inl ''environment not found'') \<and>
     Handler_CreateReservation db_held (post_as ''bob'' (Some (reserve_body ''env-404'' 10)) [])
         5 ''r2'' 5
       = (db_held, RespondWithError 404 ''Environment not found'')"
    by (simp add: CreateReservation_def Handler_CreateReservation_def)
  from a b c show ?thesis by simp
qed

text \<open>
  The claim as it was stated, that a status other than FREE at commit time gives the
  conflict error, fails when the status changes after the call's read. alice's call
  reads env-1 FREE; bob's reservation lands before her transaction, which is cancelled.
  Nothing of hers is written, but the repository returns the cancelled transaction's
  error and the handler answers 500, not the 400 of the conflict. When bob's reservation
  lands between the handler's read and the repository's, the handler answers 500 as
  well.
\<close>

theorem commit_conflict_is_not_the_conflict_error:
  "GetEnvironment db0 ''env-1'' = Inr (Some env1) \<and> env_Status env1 = StatusFree \<and>
   step bob_reserves db0 = db_bob \<and>
   map env_Status (EnvironmentsTable db_bob) = [StatusReserved] \<and>
   CreateReservation_between (step bob_reserves) db0 (held [] ''env-1'' ''alice'' 0 600) ''r1'' 2
     = (db_bob, Inl (''failed to create reservation: '' @ TransactionCanceled)) \<and>
   snd (CreateReservation_between (step bob_reserves) db0
       (held [] ''env-1'' ''alice'' 0 600) ''r1'' 2) \<noteq> Inl ''environment is already reserved'' \<and>
   Handler_CreateReservation_between (\<lambda>db. db) (step bob_reserves) db0
       (post_as ''alice'' (Some (reserve_body ''env-1'' 10)) []) 0 ''r1'' 2
     = (db_bob, RespondWithError 500
         (''Failed to create reservation: '' @ ''failed to create reservation: '' @
          TransactionCanceled)) \<and>
   Handler_CreateReservation_between (step bob_reserves) (\<lambda>db. db) db0
       (post_as ''alice'' (Some (reserve_body ''env-1'' 10)) []) 0 ''r1'' 2
     = (db_bob, RespondWithError 500
         ''Failed to create reservation: environment is already reserved'')"
  by (simp add: scenario_defs store_defs repo_defs handler_defs)

text \<open>
  C4. For an existing reservation whose holder is the requester, Release succeeds, sets
  the reservation's end time to the release time and sets the resource FREE, whatever
  the resource's status was and whether or not the reservation had already ended.
\<close>

theorem release_by_holder:
  assumes "GetReservation db ident = Inr (Some reservation)"
      and "res_Username reservation = username"
  shows "snd (ReleaseReservation db ident username now) = None \<and>
         GetReservation (fst (ReleaseReservation db ident username now)) ident
           = Inr (Some (reservation\<lparr>res_EndTime := now, res_LastUpdated := now\<rparr>)) \<and>
         (\<exists>env. GetEnvironment (fst (ReleaseReservation db ident username now))
                  (res_EnvironmentID reservation) = Inr (Some env) \<and>
                env_Status env = StatusFree)"
proof -
  from GetReservation_Inr[OF assms(1)]
  have up: "Reachable db" and it: "res_item (ReservationsTable db) ident = Some reservation"
    by simp_all
  from it have idr: "res_ID reservation = ident"
    by (auto simp: res_item_def dest: find_Some_holds)
  define db' where "db' = db\<lparr>ReservationsTable :=
        update_res ident (set_endTime now now) (ReservationsTable db),
      EnvironmentsTable :=
        update_env (res_EnvironmentID reservation) (set_status StatusFree now)
          (EnvironmentsTable db)\<rparr>"
  have rel: "ReleaseReservation db ident username now = (db', None)"
    using assms up by (simp add: ReleaseReservation_def TransactWriteItems_def db'_def)
  have r1: "res_item (ReservationsTable db') ident = Some (set_endTime now now reservation)"
    unfolding db'_def using res_item_update[OF it, of "set_endTime now now"] idr
    by (simp add: set_endTime_def)
  obtain e where e: "env_item (EnvironmentsTable db') (res_EnvironmentID reservation) = Some e"
      "env_Status e = StatusFree"
    using env_item_update_status[of "res_EnvironmentID reservation" StatusFree now
        "EnvironmentsTable db"]
    by (auto simp: db'_def)
  have up': "Reachable db'" using up by (simp add: db'_def)
  show ?thesis
    using rel r1 e up'
    by (simp add: GetReservation_def GetItem_res_def GetEnvironment_def GetItem_env_def
        set_endTime_def)
qed

text \<open>
  The witness releases r1 at 5, while it is active and env-1 is RESERVED, and at 700,
  after it ended and with env-1 already FREE.
\<close>

theorem release_by_holder_witness:
  "snd (ReleaseReservation db_held ''r1'' ''alice'' 5) = None \<and>
   map res_EndTime (ReservationsTable (fst (ReleaseReservation db_held ''r1'' ''alice'' 5)))
     = [5] \<and>
   map env_Status (EnvironmentsTable (fst (ReleaseReservation db_held ''r1'' ''alice'' 5)))
     = [StatusFree] \<and>
   GetReservation (fst (ReleaseReservation db_held ''r1'' ''alice'' 5)) ''r1''
     = Inr (Some ((held ''r1'' ''env-1'' ''alice'' 0 600)
          \<lparr>res_EndTime := 5, res_LastUpdated := 5\<rparr>)) \<and>
   snd (ReleaseReservation db_lapsed ''r1'' ''alice'' 700) = None \<and>
   GetReservation (fst (ReleaseReservation db_lapsed ''r1'' ''alice'' 700)) ''r1''
     = Inr (Some ((held ''r1'' ''env-1'' ''alice'' 0 600)
          \<lparr>res_EndTime := 700, res_LastUpdated := 700\<rparr>)) \<and>
   map env_Status (EnvironmentsTable (fst (ReleaseReservation db_lapsed ''r1'' ''alice'' 700)))
     = [StatusFree]"
proof -
  have a: "GetReservation db_held ''r1'' = Inr (Some (held ''r1'' ''env-1'' ''alice'' 0 600))"
    by (simp add: scenario_defs store_defs repo_defs)
  have b: "GetReservation db_lapsed ''r1'' = Inr (Some (held ''r1'' ''env-1'' ''alice'' 0 600))"
    by (simp add: scenario_defs store_defs repo_defs)
  have u: "res_Username (held ''r1'' ''env-1'' ''alice'' 0 600) = ''alice''"
    by (simp add: held_def)
  have c: "map res_EndTime (ReservationsTable (fst (ReleaseReservation db_held ''r1'' ''alice'' 5)))
       = [5] \<and>
     map env_Status (EnvironmentsTable (fst (ReleaseReservation db_held ''r1'' ''alice'' 5)))
       = [StatusFree] \<and>
     map env_Status (EnvironmentsTable (fst (ReleaseReservation db_lapsed ''r1'' ''alice'' 700)))
       = [StatusFree]"
    by (simp add: scenario_defs store_defs repo_defs)
  from release_by_holder[OF a u, of 5] release_by_holder[OF b u, of 700] c
  show ?thesis by simp
qed




text \<open>
  C6. A Reserve request that reaches validation is answered with one of the four
  validation errors exactly when its duration is below 10 or above 4320 minutes, or its
  feature is empty, or its environment id is empty, and then the store is untouched; so
  9 and 4321 are rejected, 10 and 4320 pass.
\<close>

theorem reserve_validation:
  assumes "Method r = ''POST''" and "ContextUser r = Some user" and "Body r = Some req"
  shows "(snd (Handler_CreateReservation db r now uuid repoNow) \<in> set ValidationErrors)
           = (req_DurationMins req < 10 \<or> req_DurationMins req > 4320 \<or>
              req_Feature req = [] \<or> req_EnvironmentID req = []) \<and>
         (snd (Handler_CreateReservation db r now uuid repoNow) \<in> set ValidationErrors \<longrightarrow>
            fst (Handler_CreateReservation db r now uuid repoNow) = db)"
proof (cases "req_EnvironmentID req = [] \<or> req_DurationMins req < 10 \<or>
    req_DurationMins req > 4320 \<or> req_Feature req = []")
  case True
  with assms show ?thesis
    by (auto simp: Handler_CreateReservation_def Handler_CreateReservation_between_def
        ValidationErrors_def Let_def)
next
  case False
  with assms have "snd (Handler_CreateReservation db r now uuid repoNow) \<notin> set ValidationErrors"
    by (auto simp: Handler_CreateReservation_def Handler_CreateReservation_between_def
        ValidationErrors_def RespondWithError_def RespondWithSuccess_def Let_def
        split: sum.splits option.splits prod.splits)
  with False show ?thesis by auto
qed

theorem reserve_validation_witness:
  "Handler_CreateReservation db0 (post_as ''alice'' (Some (reserve_body ''env-1'' 9)) [])
       0 ''r1'' 0
     = (db0, RespondWithError 400 ''Duration must be at least 10 minutes'') \<and>
   Handler_CreateReservation db0 (post_as ''alice'' (Some (reserve_body ''env-1'' 4321)) [])
       0 ''r1'' 0
     = (db0, RespondWithError 400 ''Duration cannot exceed 3 days (4320 minutes)'') \<and>
   snd (Handler_CreateReservation db0 (post_as ''alice'' (Some (reserve_body ''env-1'' 9)) [])
       0 ''r1'' 0) \<in> set ValidationErrors \<and>
   snd (Handler_CreateReservation db0 (post_as ''alice'' (Some (reserve_body ''env-1'' 4321)) [])
       0 ''r1'' 0) \<in> set ValidationErrors \<and>
   snd (Handler_CreateReservation db0 (post_as ''alice'' (Some (reserve_body ''env-1'' 10)) [])
       0 ''r1'' 0) \<notin> set ValidationErrors \<and>
   snd (Handler_CreateReservation db0 (post_as ''alice'' (Some (reserve_body ''env-1'' 4320)) [])
       0 ''r1'' 0) \<notin> set ValidationErrors \<and>
   Code (snd (Handler_CreateReservation db0
       (post_as ''alice'' (Some (reserve_body ''env-1'' 10)) []) 0 ''r1'' 0)) = 200 \<and>
   Code (snd (Handler_CreateReservation db0
       (post_as ''alice'' (Some (reserve_body ''env-1'' 4320)) []) 0 ''r1'' 0)) = 200"
proof -
  have rq: "Method (post_as ''alice'' (Some (reserve_body ''env-1'' d)) []) = ''POST''"
    "ContextUser (post_as ''alice'' (Some (reserve_body ''env-1'' d)) [])
       = Some \<lparr>user_Username = ''alice'', user_Role = ''USER''\<rparr>"
    "Body (post_as ''alice'' (Some (reserve_body ''env-1'' d)) [])
       = Some (reserve_body ''env-1'' d)" for d
    by (simp_all add: post_as_def)
  note v = reserve_validation[OF rq, where db = db0 and now = 0 and uuid = "''r1''"
      and repoNow = 0]
  have ends: "Handler_CreateReservation db0
        (post_as ''alice'' (Some (reserve_body ''env-1'' 9)) []) 0 ''r1'' 0
       = (db0, RespondWithError 400 ''Duration must be at least 10 minutes'')"
    "Handler_CreateReservation db0
        (post_as ''alice'' (Some (reserve_body ''env-1'' 4321)) []) 0 ''r1'' 0
       = (db0, RespondWithError 400 ''Duration cannot exceed 3 days (4320 minutes)'')"
    by (simp_all add: scenario_defs handler_defs)
  have ok: "Code (snd (Handler_CreateReservation db0
        (post_as ''alice'' (Some (reserve_body ''env-1'' 10)) []) 0 ''r1'' 0)) = 200"
    "Code (snd (Handler_CreateReservation db0
        (post_as ''alice'' (Some (reserve_body ''env-1'' 4320)) []) 0 ''r1'' 0)) = 200"
    by (simp_all add: scenario_defs store_defs repo_defs handler_defs)
  from v[of 9] v[of 4321] v[of 10] v[of 4320] ends ok show ?thesis
    by (simp add: reserve_body_def)
qed

text \<open>
  C7. A Release by someone who is not the holder fails with the permission error, a
  Release of an id that is not in the ledger fails with not-found, and in both cases the
  store, the reservation's end time and the resource's status included, is unchanged.
\<close>

theorem release_refused:
  "(GetReservation db ident = Inr None \<longrightarrow>
      ReleaseReservation db ident username now = (db, Some ''reservation not found'')) \<and>
   (\<forall>reservation. GetReservation db ident = Inr (Some reservation) \<and>
        res_Username reservation \<noteq> username \<longrightarrow>
      ReleaseReservation db ident username now
        = (db, Some ''you can only release your own reservations''))"
  by (simp add: ReleaseReservation_def)

theorem release_refused_witness:
  "GetReservation db_held ''nope'' = Inr None \<and>
   ReleaseReservation db_held ''nope'' ''alice'' 5 = (db_held, Some ''reservation not found'') \<and>
   GetReservation db_held ''r1'' = Inr (Some (held ''r1'' ''env-1'' ''alice'' 0 600)) \<and>
   ReleaseReservation db_held ''r1'' ''bob'' 5
     = (db_held, Some ''you can only release your own reservations'')"
proof -
  have a: "GetReservation db_held ''nope'' = Inr None"
    by (simp add: scenario_defs store_defs repo_defs)
  have b: "GetReservation db_held ''r1'' = Inr (Some (held ''r1'' ''env-1'' ''alice'' 0 600))"
    by (simp add: scenario_defs store_defs repo_defs)
  have c: "res_Username (held ''r1'' ''env-1'' ''alice'' 0 600) \<noteq> ''bob''"
    by (simp add: held_def)
  from release_refused[of db_held "''nope''" "''alice''" 5] a
  have "ReleaseReservation db_held ''nope'' ''alice'' 5 = (db_held, Some ''reservation not found'')"
    by blast
  moreover from release_refused[of db_held "''r1''" "''bob''" 5] b c
  have "ReleaseReservation db_held ''r1'' ''bob'' 5
      = (db_held, Some ''you can only release your own reservations'')"
    by blast
  ultimately show ?thesis using a b by simp
qed

text \<open>
  C8. A Release of an unknown reservation id is to be reported as a 404 and a Release
  of someone else's reservation as a 403, each apart from the 500 of a store failure.
  The handler answers all three with 500: it maps every error of the repository call to
  the same status, and only the message text differs.
\<close>

theorem release_errors_all_500:
  "Handler_ReleaseReservation db_held (post_as ''alice'' None ''nope'') 5
     = (db_held, RespondWithError 500 ''Failed to release reservation: reservation not found'') \<and>
   Handler_ReleaseReservation db_held (post_as ''bob'' None ''r1'') 5
     = (db_held, RespondWithError 500
         ''Failed to release reservation: you can only release your own reservations'') \<and>
   Code (snd (Handler_ReleaseReservation (db_held\<lparr>Reachable := False\<rparr>)
       (post_as ''alice'' None ''r1'') 5)) = 500"
  by (simp add: scenario_defs store_defs repo_defs handler_defs)

text \<open>
  C9. A Sweeper cycle writes nothing to the ledger: after \<open>CheckExpiredReservations\<close>,
  from any store and at any clock reads, the reservations table is the one it started
  from, and the environments table holds the same items in the same order, equal to the
  old ones in every field but status and lastUpdated.
\<close>

theorem sweeper_frame:
  "ReservationsTable (fst (CheckExpiredReservations db scanTime now)) = ReservationsTable db \<and>
   map env_rest (EnvironmentsTable (fst (CheckExpiredReservations db scanTime now)))
     = map env_rest (EnvironmentsTable db)"
proof (cases "ListActiveReservations db scanTime")
  case (Inl e)
  then show ?thesis by (simp add: CheckExpiredReservations_def)
next
  case (Inr rs)
  obtain db' err where r: "check_each rs now db = (db', err)"
    by (cases "check_each rs now db")
  from check_each_frame[OF r] Inr r show ?thesis by (simp add: CheckExpiredReservations_def)
qed

text \<open>
  C10. A reservation that \<open>CreateReservation\<close> stores carries the generated identifier
  and the creation time as createdAt and lastUpdated; what the caller's record held in
  these three fields has no effect on the call.
\<close>

theorem created_reservation_identity:
  assumes "CreateReservation db reservation uuid now = (db', Inr created)"
  shows "created = reservation\<lparr>res_ID := uuid, res_CreatedAt := now, res_LastUpdated := now\<rparr> \<and>
         res_ID created = uuid \<and> res_CreatedAt created = now \<and> res_LastUpdated created = now \<and>
         GetReservation db' uuid = Inr (Some created) \<and>
         CreateReservation db
           (reservation\<lparr>res_ID := i, res_CreatedAt := c, res_LastUpdated := u\<rparr>) uuid now
           = (db', Inr created)"
proof -
  let ?stored = "reservation\<lparr>res_ID := uuid, res_CreatedAt := now, res_LastUpdated := now\<rparr>"
  let ?items = "[Put ?stored,
     UpdateEnvironment (res_EnvironmentID reservation) StatusReserved now
       (StatusEquals StatusFree)]"
  from assms obtain env where
      env: "GetEnvironment db (res_EnvironmentID reservation) = Inr (Some env)"
      and free: "env_Status env = StatusFree"
      and tx: "TransactWriteItems db ?items = Inr db'"
      and cr: "created = ?stored"
    by (auto simp: CreateReservation_def CreateReservation_between_def Let_def
        split: sum.splits option.splits if_splits)
  from tx have tbl: "ReservationsTable db' = put_res ?stored (ReservationsTable db)"
      and up': "Reachable db'"
    by (auto simp: TransactWriteItems_def split: if_splits)
  have "res_item (ReservationsTable db') (res_ID ?stored) = Some ?stored"
    unfolding tbl by (rule res_item_put)
  then have get: "GetReservation db' uuid = Inr (Some created)"
    using up' cr by (simp add: GetReservation_def GetItem_res_def)
  have same: "CreateReservation db
      (reservation\<lparr>res_ID := i, res_CreatedAt := c, res_LastUpdated := u\<rparr>) uuid now
      = CreateReservation db reservation uuid now"
    by (simp add: CreateReservation_def CreateReservation_between_def Let_def
        split: sum.splits option.splits)
  show ?thesis using cr get same assms by simp
qed

theorem created_reservation_identity_witness:
  "CreateReservation db0 (held ''from-caller'' ''env-1'' ''alice'' 7 607) ''r1'' 9
     = (db_created,
        Inr ((held ''r1'' ''env-1'' ''alice'' 7 607)\<lparr>res_CreatedAt := 9, res_LastUpdated := 9\<rparr>)) \<and>
   GetReservation db_created ''r1''
     = Inr (Some ((held ''r1'' ''env-1'' ''alice'' 7 607)
         \<lparr>res_CreatedAt := 9, res_LastUpdated := 9\<rparr>)) \<and>
   CreateReservation db0 ((held ''from-caller'' ''env-1'' ''alice'' 7 607)
       \<lparr>res_ID := ''other'', res_CreatedAt := 1, res_LastUpdated := 2\<rparr>) ''r1'' 9
     = (db_created,
        Inr ((held ''r1'' ''env-1'' ''alice'' 7 607)\<lparr>res_CreatedAt := 9, res_LastUpdated := 9\<rparr>))"
proof -
  have h: "CreateReservation db0 (held ''from-caller'' ''env-1'' ''alice'' 7 607) ''r1'' 9
      = (db_created,
         Inr ((held ''r1'' ''env-1'' ''alice'' 7 607)\<lparr>res_CreatedAt := 9, res_LastUpdated := 9\<rparr>))"
    by (simp add: scenario_defs store_defs repo_defs Let_def)
  from created_reservation_identity[OF h, where i = "''other''" and c = 1 and u = 2] h show ?thesis by simp
qed

end
